theory Spec2Isabelle
  imports Complex_Main
begin

section \<open>Values of the rule engine\<close>

text \<open>
  The rule engine of \<^verbatim>\<open>validator/rules_engine.py\<close> works on the values that the YAML,
  JSON and HCL loaders produce: \<^verbatim>\<open>None\<close>, booleans, unbounded integers, floats, strings,
  lists and dictionaries with string keys. A float is kept by its mathematical value
  (every finite double is a rational), with the signed zero, the infinities and NaN as
  values of their own; comparisons of floats are exact and are defined here, while the
  conversions that round (\<^verbatim>\<open>float(int)\<close>, \<^verbatim>\<open>float(str)\<close>) are taken from the library
  record below.
\<close>

datatype pyfloat = Finite rat | NegZero | PosInf | NegInf | NaN

datatype pyval =
    PNone
  | PBool bool
  | PInt int
  | PFloat pyfloat
  | PStr string
  | PList "pyval list"
  | PDict "(string \<times> pyval) list"

datatype pyerr =
    TypeError | ValueError | AttributeError | OverflowError
  | ReError | JMESPathError | NotModelled

type_synonym 'a result = "pyerr + 'a"

type_synonym rule = "(string \<times> pyval) list"

text \<open>
  The functions of third-party libraries and of the interpreter that the engine calls and
  whose code is not part of the repository: \<^verbatim>\<open>jmespath.search\<close>, \<^verbatim>\<open>re.search\<close> (reduced
  to "a match was found"), \<^verbatim>\<open>str\<close> on a value that is not a string, and the two
  rounding conversions to float. \<open>Inl\<close> is a raised exception.
\<close>

record pylib =
  jmespath_search :: "pyval \<Rightarrow> pyval \<Rightarrow> pyval result"
  re_search :: "string \<Rightarrow> string \<Rightarrow> bool result"
  str_other :: "pyval \<Rightarrow> string"
  float_of_int :: "int \<Rightarrow> pyfloat result"
  float_of_str :: "string \<Rightarrow> pyfloat result"

subsection \<open>Truthiness, equality and ordering of values\<close>

fun fl_zero :: "pyfloat \<Rightarrow> bool" where
  "fl_zero (Finite q) = (q = 0)"
| "fl_zero NegZero = True"
| "fl_zero _ = False"

fun py_truthy :: "pyval \<Rightarrow> bool" where
  "py_truthy PNone = False"
| "py_truthy (PBool b) = b"
| "py_truthy (PInt n) = (n \<noteq> 0)"
| "py_truthy (PFloat f) = (\<not> fl_zero f)"
| "py_truthy (PStr s) = (s \<noteq> [])"
| "py_truthy (PList xs) = (xs \<noteq> [])"
| "py_truthy (PDict kv) = (kv \<noteq> [])"

fun fl_eq :: "pyfloat \<Rightarrow> pyfloat \<Rightarrow> bool" where
  "fl_eq NaN _ = False"
| "fl_eq _ NaN = False"
| "fl_eq PosInf b = (b = PosInf)"
| "fl_eq NegInf b = (b = NegInf)"
| "fl_eq a PosInf = False"
| "fl_eq a NegInf = False"
| "fl_eq (Finite p) (Finite q) = (p = q)"
| "fl_eq (Finite p) NegZero = (p = 0)"
| "fl_eq NegZero (Finite q) = (q = 0)"
| "fl_eq NegZero NegZero = True"

fun fl_lt :: "pyfloat \<Rightarrow> pyfloat \<Rightarrow> bool" where
  "fl_lt NaN _ = False"
| "fl_lt _ NaN = False"
| "fl_lt PosInf _ = False"
| "fl_lt _ NegInf = False"
| "fl_lt NegInf _ = True"
| "fl_lt _ PosInf = True"
| "fl_lt (Finite p) (Finite q) = (p < q)"
| "fl_lt (Finite p) NegZero = (p < 0)"
| "fl_lt NegZero (Finite q) = (0 < q)"
| "fl_lt NegZero NegZero = False"

text \<open>The numeric value of \<^verbatim>\<open>bool\<close>, \<^verbatim>\<open>int\<close> and \<^verbatim>\<open>float\<close>; Python compares them exactly.\<close>

fun num_of :: "pyval \<Rightarrow> pyfloat option" where
  "num_of (PBool b) = Some (Finite (if b then 1 else 0))"
| "num_of (PInt n) = Some (Finite (of_int n))"
| "num_of (PFloat f) = Some f"
| "num_of _ = None"

text \<open>
  \<^verbatim>\<open>a == b\<close>: numbers by value, strings and lists by content, dictionaries by their
  key sets and the values under each key, values of different kinds are unequal.
\<close>

fun py_eq :: "pyval \<Rightarrow> pyval \<Rightarrow> bool"
  and py_eq_list :: "pyval list \<Rightarrow> pyval list \<Rightarrow> bool"
  and dict_sub :: "(string \<times> pyval) list \<Rightarrow> (string \<times> pyval) list \<Rightarrow> bool"
  and lookup_eq :: "pyval \<Rightarrow> string \<Rightarrow> (string \<times> pyval) list \<Rightarrow> bool"
where
  "py_eq PNone b = (b = PNone)"
| "py_eq (PStr s) b = (b = PStr s)"
| "py_eq (PList xs) (PList ys) = py_eq_list xs ys"
| "py_eq (PList xs) _ = False"
| "py_eq (PDict kv) (PDict kw) = (length kv = length kw \<and> dict_sub kv kw)"
| "py_eq (PDict kv) _ = False"
| "py_eq a b =
     (case (num_of a, num_of b) of (Some x, Some y) \<Rightarrow> fl_eq x y | _ \<Rightarrow> False)"
| "py_eq_list [] [] = True"
| "py_eq_list (x # xs) (y # ys) = (py_eq x y \<and> py_eq_list xs ys)"
| "py_eq_list _ _ = False"
| "dict_sub [] kw = True"
| "dict_sub ((k, v) # kv) kw = (lookup_eq v k kw \<and> dict_sub kv kw)"
| "lookup_eq v k [] = False"
| "lookup_eq v k ((k', w) # kw) = (if k = k' then py_eq v w else lookup_eq v k kw)"

fun str_lt :: "string \<Rightarrow> string \<Rightarrow> bool" where
  "str_lt [] [] = False"
| "str_lt [] (d # ds) = True"
| "str_lt (c # cs) [] = False"
| "str_lt (c # cs) (d # ds) =
     (if c = d then str_lt cs ds else (of_char c :: nat) < of_char d)"

text \<open>
  \<^verbatim>\<open>a < b\<close>: defined between numbers, between strings and between lists (by the first
  pair of unequal elements, then by length); every other combination raises TypeError.
\<close>

fun py_lt :: "pyval \<Rightarrow> pyval \<Rightarrow> bool result"
  and py_lt_list :: "pyval list \<Rightarrow> pyval list \<Rightarrow> bool result"
where
  "py_lt (PStr s) (PStr t) = Inr (str_lt s t)"
| "py_lt (PList xs) (PList ys) = py_lt_list xs ys"
| "py_lt a b =
     (case (num_of a, num_of b) of
        (Some x, Some y) \<Rightarrow> Inr (fl_lt x y)
      | _ \<Rightarrow> Inl TypeError)"
| "py_lt_list [] [] = Inr False"
| "py_lt_list [] (y # ys) = Inr True"
| "py_lt_list (x # xs) [] = Inr False"
| "py_lt_list (x # xs) (y # ys) =
     (if py_eq x y then py_lt_list xs ys else py_lt x y)"

text \<open>\<^verbatim>\<open>a > b\<close> is \<^verbatim>\<open>b < a\<close> on these values.\<close>

definition py_gt :: "pyval \<Rightarrow> pyval \<Rightarrow> bool result" where
  "py_gt a b = py_lt b a"

subsection \<open>Strings and integer literals\<close>

definition startswith :: "string \<Rightarrow> string \<Rightarrow> bool" where
  "startswith s p = (take (length p) s = p)"

definition endswith :: "string \<Rightarrow> string \<Rightarrow> bool" where
  "endswith s p = (length p \<le> length s \<and> drop (length s - length p) s = p)"

text \<open>\<^verbatim>\<open>p in s\<close> for two strings: \<open>p\<close> occurs in \<open>s\<close> as a contiguous piece.\<close>

fun str_contains :: "string \<Rightarrow> string \<Rightarrow> bool" where
  "str_contains [] p = (p = [])"
| "str_contains (c # cs) p = (startswith (c # cs) p \<or> str_contains cs p)"

text \<open>
  \<^verbatim>\<open>s.replace(old, "")\<close>: every occurrence of \<open>old\<close>, found from the left and not
  overlapping, is removed. The engine only calls it with \<^verbatim>\<open>old = "tls"\<close>.
\<close>

function str_remove :: "string \<Rightarrow> string \<Rightarrow> string" where
  "str_remove old [] = []"
| "str_remove old (c # cs) =
     (if old \<noteq> [] \<and> startswith (c # cs) old
      then str_remove old (drop (length old) (c # cs))
      else c # str_remove old cs)"
  by pat_completeness auto
termination
  by (relation "measure (\<lambda>(old, s). length s)") auto

text \<open>
  A string is the sequence of its code points, each below 256. The whitespace that
  \<^verbatim>\<open>int\<close> and \<^verbatim>\<open>float\<close> drop around a literal: tab, line feed, vertical tab, form feed,
  carriage return and space, and of the code points from 128 on the two that are
  whitespace, U+0085 and U+00A0. The separators U+001C to U+001F are not dropped.
\<close>

definition is_space :: "char \<Rightarrow> bool" where
  "is_space c = ((of_char c :: nat) \<in> {9, 10, 11, 12, 13, 32, 133, 160})"

definition is_digit :: "char \<Rightarrow> bool" where
  "is_digit c = (48 \<le> (of_char c :: nat) \<and> (of_char c :: nat) \<le> 57)"

definition digit_val :: "char \<Rightarrow> nat" where
  "digit_val c = of_char c - 48"

definition strip :: "string \<Rightarrow> string" where
  "strip s = rev (dropWhile is_space (rev (dropWhile is_space s)))"

text \<open>
  The digits of an integer literal: decimal digits, with single underscores allowed
  between two digits. \<open>prev\<close> says that the character before was a digit.
\<close>

fun int_digits :: "nat \<Rightarrow> bool \<Rightarrow> string \<Rightarrow> nat option" where
  "int_digits acc prev [] = (if prev then Some acc else None)"
| "int_digits acc prev (c # cs) =
     (if is_digit c then int_digits (acc * 10 + digit_val c) True cs
      else if c = CHR ''_'' \<and> prev then int_digits acc False cs
      else None)"

text \<open>
  \<^verbatim>\<open>int(s)\<close>: surrounding whitespace is dropped, one sign is allowed, then the digits;
  anything else raises ValueError. The interpreter's configurable limit on the number of
  digits (4300 by default) is not modelled.
\<close>

definition py_int_of_str :: "string \<Rightarrow> int result" where
  "py_int_of_str s =
     (let t = strip s;
          neg = (t \<noteq> [] \<and> hd t = CHR ''-'');
          u = (if t \<noteq> [] \<and> (hd t = CHR ''-'' \<or> hd t = CHR ''+'') then tl t else t)
      in case int_digits 0 False u of
           None \<Rightarrow> Inl ValueError
         | Some n \<Rightarrow> Inr (if neg then - int n else int n))"

subsection \<open>The single-value predicate\<close>

definition OPERATORS :: "string list" where
  "OPERATORS =
     [''exists'', ''equals'', ''in'', ''regex'', ''gt'', ''lt'', ''not_equals'', ''absent'']"

definition dict_get :: "(string \<times> pyval) list \<Rightarrow> string \<Rightarrow> pyval \<Rightarrow> pyval" where
  "dict_get d k dflt = (case map_of d k of None \<Rightarrow> dflt | Some v \<Rightarrow> v)"

text \<open>The inner function \<^verbatim>\<open>tls_version_to_num\<close> of \<^verbatim>\<open>_eval_single\<close>.\<close>

definition tls_version_to_num :: "pyval \<Rightarrow> pyval result" where
  "tls_version_to_num v =
     (case v of
        PNone \<Rightarrow> Inr (PInt 0)
      | PStr s \<Rightarrow>
          (if startswith s ''tls''
           then (case py_int_of_str (str_remove ''tls'' s) of
                   Inl e \<Rightarrow> Inl e
                 | Inr n \<Rightarrow> Inr (PInt n))
           else Inr v)
      | _ \<Rightarrow> Inr v)"

text \<open>
  The guard \<^verbatim>\<open>rule and rule.get("jmespath", "").endswith("tls_min_version")\<close>: false
  without a rule or with an empty one; a path that is present and not a string has no
  \<^verbatim>\<open>endswith\<close> and raises AttributeError.
\<close>

definition tls_rule :: "rule option \<Rightarrow> bool result" where
  "tls_rule rule =
     (case rule of
        None \<Rightarrow> Inr False
      | Some r \<Rightarrow>
          (if r = [] then Inr False
           else (case dict_get r ''jmespath'' (PStr []) of
                   PStr s \<Rightarrow> Inr (endswith s ''tls_min_version'')
                 | _ \<Rightarrow> Inl AttributeError)))"

definition tls_compare ::
  "(pyval \<Rightarrow> pyval \<Rightarrow> bool result) \<Rightarrow> pyval \<Rightarrow> pyval \<Rightarrow> bool result" where
  "tls_compare cmp observed expected =
     (case tls_version_to_num observed of
        Inl e \<Rightarrow> Inl e
      | Inr a \<Rightarrow>
          (case tls_version_to_num expected of
             Inl e \<Rightarrow> Inl e
           | Inr b \<Rightarrow> cmp a b))"

text \<open>\<^verbatim>\<open>float(v)\<close>: TypeError on None, lists and dictionaries.\<close>

definition py_float :: "pylib \<Rightarrow> pyval \<Rightarrow> pyfloat result" where
  "py_float L v =
     (case v of
        PBool b \<Rightarrow> float_of_int L (if b then 1 else 0)
      | PInt n \<Rightarrow> float_of_int L n
      | PFloat f \<Rightarrow> Inr f
      | PStr s \<Rightarrow> float_of_str L s
      | _ \<Rightarrow> Inl TypeError)"

text \<open>
  \<^verbatim>\<open>try: return cmp(float(observed), float(expected)) except Exception: return False\<close>
\<close>

definition float_compare ::
  "pylib \<Rightarrow> (pyfloat \<Rightarrow> pyfloat \<Rightarrow> bool) \<Rightarrow> pyval \<Rightarrow> pyval \<Rightarrow> bool" where
  "float_compare L cmp observed expected =
     (case py_float L observed of
        Inl e \<Rightarrow> False
      | Inr a \<Rightarrow>
          (case py_float L expected of
             Inl e \<Rightarrow> False
           | Inr b \<Rightarrow> cmp a b))"

text \<open>
  \<^verbatim>\<open>observed in expected\<close>: membership in a list, substring of a string (the left
  operand must be a string), key of a dictionary (the left operand must be hashable);
  any other right operand is not a container and raises TypeError.
\<close>

fun py_in :: "pyval \<Rightarrow> pyval \<Rightarrow> bool result" where
  "py_in x (PList ys) = Inr (list_ex (py_eq x) ys)"
| "py_in x (PStr s) = (case x of PStr t \<Rightarrow> Inr (str_contains s t) | _ \<Rightarrow> Inl TypeError)"
| "py_in x (PDict kv) =
     (case x of
        PList _ \<Rightarrow> Inl TypeError
      | PDict _ \<Rightarrow> Inl TypeError
      | PStr k \<Rightarrow> Inr (k \<in> set (map fst kv))
      | _ \<Rightarrow> Inr False)"
| "py_in x _ = Inl TypeError"

definition py_str :: "pylib \<Rightarrow> pyval \<Rightarrow> string" where
  "py_str L v = (case v of PStr s \<Rightarrow> s | _ \<Rightarrow> str_other L v)"

text \<open>
  \<^verbatim>\<open>bool(re.search(expected, s))\<close>: a pattern that is not a string raises TypeError, a
  malformed one raises inside the library.
\<close>

definition py_re_search :: "pylib \<Rightarrow> pyval \<Rightarrow> string \<Rightarrow> bool result" where
  "py_re_search L pattern s =
     (case pattern of PStr p \<Rightarrow> re_search L p s | _ \<Rightarrow> Inl TypeError)"

text \<open>
  \<^verbatim>\<open>_eval_single(operator, observed, expected, rule=None)\<close>; the source's leading
  underscore is not part of an Isabelle name.
\<close>

definition eval_single ::
  "pylib \<Rightarrow> pyval \<Rightarrow> pyval \<Rightarrow> pyval \<Rightarrow> rule option \<Rightarrow> bool result" where
  "eval_single L operator observed expected rule =
     (if operator = PStr ''exists'' then Inr (observed \<noteq> PNone)
      else if operator = PStr ''absent'' then Inr (observed = PNone)
      else if operator = PStr ''equals'' then
        (case tls_rule rule of
           Inl e \<Rightarrow> Inl e
         | Inr t \<Rightarrow>
             if t then tls_compare (\<lambda>a b. Inr (py_eq a b)) observed expected
             else Inr (py_eq observed expected))
      else if operator = PStr ''not_equals'' then
        (case tls_rule rule of
           Inl e \<Rightarrow> Inl e
         | Inr t \<Rightarrow>
             if t then tls_compare (\<lambda>a b. Inr (\<not> py_eq a b)) observed expected
             else Inr (\<not> py_eq observed expected))
      else if operator = PStr ''in'' then
        (if observed \<noteq> PNone then py_in observed expected else Inr False)
      else if operator = PStr ''regex'' then
        (if observed = PNone then Inr False
         else py_re_search L expected (py_str L observed))
      else if operator = PStr ''gt'' then
        (case tls_rule rule of
           Inl e \<Rightarrow> Inl e
         | Inr t \<Rightarrow>
             if t then tls_compare py_gt observed expected
             else Inr (float_compare L (\<lambda>a b. fl_lt b a) observed expected))
      else if operator = PStr ''lt'' then
        (case tls_rule rule of
           Inl e \<Rightarrow> Inl e
         | Inr t \<Rightarrow>
             if t then tls_compare py_lt observed expected
             else Inr (float_compare L fl_lt observed expected))
      else Inr False)"

section \<open>The rule evaluator and the rule runner\<close>

record verdict =
  vd_id :: pyval
  vd_title :: pyval
  vd_severity :: pyval
  vd_passed :: bool
  vd_observed :: pyval
  vd_message :: pyval
  vd_remediation :: pyval
  vd_reference :: pyval

text \<open>
  Lines 22 and 25 to 31 of \<^verbatim>\<open>evaluate_rule\<close>: the path expression is searched only when
  it is truthy, and any exception of the search leaves the observation at None.
\<close>

definition observe :: "pylib \<Rightarrow> rule \<Rightarrow> pyval \<Rightarrow> pyval" where
  "observe L rule doc =
     (let expr = dict_get rule ''jmespath'' PNone
      in if py_truthy expr
         then (case jmespath_search L expr doc of Inl e \<Rightarrow> PNone | Inr v \<Rightarrow> v)
         else PNone)"

text \<open>
  The loop that fills \<^verbatim>\<open>flat\<close>: \<^verbatim>\<open>flat.extend(item)\<close> for a list item,
  \<^verbatim>\<open>flat.append(item)\<close> for any other.
\<close>

fun flatten_loop :: "pyval list \<Rightarrow> pyval list \<Rightarrow> pyval list" where
  "flatten_loop flat [] = flat"
| "flatten_loop flat (item # items) =
     (case item of
        PList sub \<Rightarrow> flatten_loop (flat @ sub) items
      | _ \<Rightarrow> flatten_loop (flat @ [item]) items)"

text \<open>
  \<^verbatim>\<open>all(f(item) for item in xs)\<close> and \<^verbatim>\<open>any(...)\<close> over a generator: evaluation stops at
  the first element that decides the result, and an exception of \<open>f\<close> before that
  point propagates.
\<close>

fun py_all :: "('a \<Rightarrow> bool result) \<Rightarrow> 'a list \<Rightarrow> bool result" where
  "py_all f [] = Inr True"
| "py_all f (x # xs) =
     (case f x of
        Inl e \<Rightarrow> Inl e
      | Inr b \<Rightarrow> if b then py_all f xs else Inr False)"

fun py_any :: "('a \<Rightarrow> bool result) \<Rightarrow> 'a list \<Rightarrow> bool result" where
  "py_any f [] = Inr False"
| "py_any f (x # xs) =
     (case f x of
        Inl e \<Rightarrow> Inl e
      | Inr b \<Rightarrow> if b then Inr True else py_any f xs)"

definition make_verdict :: "rule \<Rightarrow> bool \<Rightarrow> pyval \<Rightarrow> verdict" where
  "make_verdict rule p obs =
     \<lparr> vd_id = dict_get rule ''id'' PNone,
       vd_title = dict_get rule ''title'' PNone,
       vd_severity = dict_get rule ''severity'' (PStr ''info''),
       vd_passed = p,
       vd_observed = obs,
       vd_message = dict_get rule ''message'' PNone,
       vd_remediation = dict_get rule ''remediation'' PNone,
       vd_reference = dict_get rule ''reference'' PNone \<rparr>"

text \<open>
  The aggregate over a list observation (lines 44 to 52). The elements are given to
  \<^verbatim>\<open>_eval_single\<close> without the \<^verbatim>\<open>rule\<close> argument.
\<close>

definition aggregate :: "pylib \<Rightarrow> pyval \<Rightarrow> pyval \<Rightarrow> pyval list \<Rightarrow> bool result" where
  "aggregate L operator expected flat =
     (if operator = PStr ''regex'' then
        (case py_any (\<lambda>item. eval_single L operator item expected None) flat of
           Inl e \<Rightarrow> Inl e
         | Inr b \<Rightarrow> Inr (\<not> b))
      else if operator = PStr ''exists'' then
        py_all (\<lambda>item. eval_single L operator item expected None) flat
      else if operator = PStr ''absent'' then
        py_all (\<lambda>item. eval_single L operator item expected None) flat
      else
        py_all (\<lambda>item. eval_single L operator item expected None) flat)"

definition evaluate_rule :: "pylib \<Rightarrow> rule \<Rightarrow> pyval \<Rightarrow> verdict result" where
  "evaluate_rule L rule doc =
     (let operator = dict_get rule ''operator'' (PStr ''exists'');
          expected = dict_get rule ''expected'' PNone;
          observed = observe L rule doc
      in case observed of
           PList items \<Rightarrow>
             (let flat = flatten_loop [] items
              in case aggregate L operator expected flat of
                   Inl e \<Rightarrow> Inl e
                 | Inr p \<Rightarrow> Inr (make_verdict rule p (PList flat)))
         | _ \<Rightarrow>
             (case eval_single L operator observed expected (Some rule) of
                Inl e \<Rightarrow> Inl e
              | Inr p \<Rightarrow> Inr (make_verdict rule p observed)))"

text \<open>\<^verbatim>\<open>run_rules_for_file\<close>: the loop appends one verdict per rule to \<^verbatim>\<open>results\<close>.\<close>

fun run_loop :: "pylib \<Rightarrow> verdict list \<Rightarrow> rule list \<Rightarrow> pyval \<Rightarrow> verdict list result" where
  "run_loop L results [] doc = Inr results"
| "run_loop L results (r # rs) doc =
     (case evaluate_rule L r doc of
        Inl e \<Rightarrow> Inl e
      | Inr v \<Rightarrow> run_loop L (results @ [v]) rs doc)"

definition run_rules_for_file :: "pylib \<Rightarrow> rule list \<Rightarrow> pyval \<Rightarrow> verdict list result" where
  "run_rules_for_file L rules parsed_doc = run_loop L [] rules parsed_doc"

section \<open>A reference library for concrete evaluations\<close>

text \<open>
  The theorems below hold for every library record. Concrete evaluations need one; this
  one answers as the libraries do on a fragment of their inputs and \<open>Inl NotModelled\<close>
  outside of it:
  \<^item> path expressions that start with a field name and continue with \<^verbatim>\<open>.name\<close>,
    \<^verbatim>\<open>[n]\<close>, \<^verbatim>\<open>[-n]\<close>, \<^verbatim>\<open>[*]\<close> and the flatten operator \<^verbatim>\<open>[]\<close>, with the semantics
    JMESPath gives them: a missing field or index is null, a projection applies the rest
    of its segment to every element of a list and drops the null results, a projection
    over anything but a list is null, and \<^verbatim>\<open>[]\<close> ends the projection to its left, merges
    the sub-lists of the result one level and projects what follows;
  \<^item> regular expressions made of letters, digits, spaces and parentheses: with balanced
    parentheses they match where the text without the parentheses occurs as a substring,
    with unbalanced ones \<^verbatim>\<open>re.search\<close> raises;
  \<^item> \<^verbatim>\<open>float\<close> of an integer of magnitude up to \<open>2^53\<close> (exact) or from \<open>2^1024\<close> on
    (OverflowError), and of a decimal literal whose value is a double (an odd numerator
    up to \<open>2^53\<close> over a power of two), of \<^verbatim>\<open>inf\<close>, \<^verbatim>\<open>infinity\<close> and \<^verbatim>\<open>nan\<close>;
  \<^item> \<^verbatim>\<open>str\<close> of None, of a boolean and of an integer. The text of a float, a list or a
    dictionary is not modelled: it is rendered as the one character NUL, and the
    regular-expression search gives no answer on a text that holds NUL.
  Where the evaluator catches every exception (the path search, the float coercion) it
  also catches \<open>NotModelled\<close>; the concrete evaluations below stay inside the fragment.
\<close>

datatype step = Field string | Index int | Star

datatype tok = TWord string | TSym char

definition is_word_char :: "char \<Rightarrow> bool" where
  "is_word_char c =
     (let n = (of_char c :: nat)
      in (48 \<le> n \<and> n \<le> 57) \<or> (65 \<le> n \<and> n \<le> 90) \<or> (97 \<le> n \<and> n \<le> 122) \<or> n = 95)"

definition word_toks :: "string \<Rightarrow> tok list" where
  "word_toks acc = (if acc = [] then [] else [TWord (rev acc)])"

fun lex_path :: "string \<Rightarrow> string \<Rightarrow> tok list option" where
  "lex_path acc [] = Some (word_toks acc)"
| "lex_path acc (c # cs) =
     (if c \<in> set ''.[]*-'' then
        (case lex_path [] cs of
           None \<Rightarrow> None
         | Some ts \<Rightarrow> Some (word_toks acc @ TSym c # ts))
      else if is_word_char c then lex_path (c # acc) cs
      else None)"

definition field_name :: "string \<Rightarrow> bool" where
  "field_name w = (w \<noteq> [] \<and> \<not> is_digit (hd w))"

text \<open>A number inside brackets: decimal digits only.\<close>

definition index_digits :: "string \<Rightarrow> nat option" where
  "index_digits w =
     (if w \<noteq> [] \<and> list_all is_digit w then int_digits 0 False w else None)"

text \<open>
  A path is a list of segments, separated by the flatten operator. \<open>push\<close> puts a step
  in front of the first segment.
\<close>

definition push :: "step \<Rightarrow> step list list \<Rightarrow> step list list" where
  "push st segs = (case segs of [] \<Rightarrow> [[st]] | g # gs \<Rightarrow> (st # g) # gs)"

fun parse_steps :: "tok list \<Rightarrow> step list list option" where
  "parse_steps [] = Some [[]]"
| "parse_steps (TSym a # TSym b # TSym c # TSym d # ts) =
     (if a = CHR ''['' \<and> b = CHR ''*'' \<and> c = CHR '']''
      then map_option (push Star) (parse_steps (TSym d # ts))
      else if a = CHR ''['' \<and> b = CHR '']''
      then map_option ((#) []) (parse_steps (TSym c # TSym d # ts))
      else None)"
| "parse_steps (TSym a # TSym b # TWord w # TSym d # ts) =
     (if a = CHR ''['' \<and> b = CHR ''-'' \<and> d = CHR '']'' then
        (case index_digits w of
           None \<Rightarrow> None
         | Some n \<Rightarrow> map_option (push (Index (- int n))) (parse_steps ts))
      else if a = CHR ''['' \<and> b = CHR '']''
      then map_option ((#) []) (parse_steps (TWord w # TSym d # ts))
      else None)"
| "parse_steps (TSym a # TSym b # TSym c # ts) =
     (if a = CHR ''['' \<and> b = CHR ''*'' \<and> c = CHR '']''
      then map_option (push Star) (parse_steps ts)
      else if a = CHR ''['' \<and> b = CHR '']''
      then map_option ((#) []) (parse_steps (TSym c # ts))
      else None)"
| "parse_steps (TSym a # TSym b # ts) =
     (if a = CHR ''['' \<and> b = CHR '']''
      then map_option ((#) []) (parse_steps ts)
      else None)"
| "parse_steps (TSym a # TWord w # TSym c # ts) =
     (if a = CHR ''['' \<and> c = CHR '']'' then
        (case index_digits w of
           None \<Rightarrow> None
         | Some n \<Rightarrow> map_option (push (Index (int n))) (parse_steps ts))
      else if a = CHR ''.'' \<and> field_name w
      then map_option (push (Field w)) (parse_steps (TSym c # ts))
      else None)"
| "parse_steps (TSym a # TWord w # ts) =
     (if a = CHR ''.'' \<and> field_name w
      then map_option (push (Field w)) (parse_steps ts) else None)"
| "parse_steps _ = None"

definition parse_path :: "string \<Rightarrow> step list list option" where
  "parse_path s =
     (case lex_path [] s of
        Some (TWord w # ts) \<Rightarrow>
          (if field_name w then map_option (push (Field w)) (parse_steps ts) else None)
      | _ \<Rightarrow> None)"

fun eval_steps :: "step list \<Rightarrow> pyval \<Rightarrow> pyval" where
  "eval_steps [] v = v"
| "eval_steps (Field k # r) v =
     (case v of
        PDict kv \<Rightarrow> (case map_of kv k of None \<Rightarrow> PNone | Some x \<Rightarrow> eval_steps r x)
      | _ \<Rightarrow> PNone)"
| "eval_steps (Index i # r) v =
     (case v of
        PList xs \<Rightarrow>
          (let j = (if i < 0 then int (length xs) + i else i)
           in if 0 \<le> j \<and> j < int (length xs) then eval_steps r (xs ! nat j) else PNone)
      | _ \<Rightarrow> PNone)"
| "eval_steps (Star # r) v =
     (case v of
        PList xs \<Rightarrow> PList (filter (\<lambda>x. x \<noteq> PNone) (map (eval_steps r) xs))
      | _ \<Rightarrow> PNone)"

text \<open>The flatten operator applied to \<open>v\<close>, followed by the projection of a segment.\<close>

definition flatten_project :: "pyval \<Rightarrow> step list \<Rightarrow> pyval" where
  "flatten_project v seg =
     (case v of
        PList xs \<Rightarrow>
          PList (filter (\<lambda>x. x \<noteq> PNone)
            (map (eval_steps seg)
              (concat (map (\<lambda>x. case x of PList sub \<Rightarrow> sub | _ \<Rightarrow> [x]) xs))))
      | _ \<Rightarrow> PNone)"

definition eval_path :: "step list list \<Rightarrow> pyval \<Rightarrow> pyval" where
  "eval_path segs doc =
     (case segs of
        [] \<Rightarrow> doc
      | g # gs \<Rightarrow> foldl flatten_project (eval_steps g doc) gs)"

definition ref_search :: "pyval \<Rightarrow> pyval \<Rightarrow> pyval result" where
  "ref_search expr doc =
     (case expr of
        PStr s \<Rightarrow>
          (case parse_path s of
             None \<Rightarrow> Inl NotModelled
           | Some segs \<Rightarrow> Inr (eval_path segs doc))
      | _ \<Rightarrow> Inl TypeError)"

definition plain_char :: "char \<Rightarrow> bool" where
  "plain_char c = (is_word_char c \<and> c \<noteq> CHR ''_'' \<or> c = CHR '' '')"

definition paren :: "char \<Rightarrow> bool" where
  "paren c = (c = CHR ''('' \<or> c = CHR '')'')"

text \<open>\<open>balanced d p\<close>: the parentheses of \<open>p\<close> close properly, \<open>d\<close> of them being open.\<close>

fun balanced :: "nat \<Rightarrow> string \<Rightarrow> bool" where
  "balanced d [] = (d = 0)"
| "balanced d (c # cs) =
     (if c = CHR ''('' then balanced (Suc d) cs
      else if c = CHR '')'' then (d \<noteq> 0 \<and> balanced (d - 1) cs)
      else balanced d cs)"

definition ref_re_search :: "string \<Rightarrow> string \<Rightarrow> bool result" where
  "ref_re_search p s =
     (if CHR 0x00 \<in> set s then Inl NotModelled
      else if list_all (\<lambda>c. plain_char c \<or> paren c) p then
        (if balanced 0 p then Inr (str_contains s (filter (\<lambda>c. \<not> paren c) p))
         else Inl ReError)
      else Inl NotModelled)"

definition is_letter :: "char \<Rightarrow> bool" where
  "is_letter c =
     (let n = (of_char c :: nat) in (65 \<le> n \<and> n \<le> 90) \<or> (97 \<le> n \<and> n \<le> 122))"

definition lower :: "char \<Rightarrow> char" where
  "lower c =
     (let n = (of_char c :: nat) in if 65 \<le> n \<and> n \<le> 90 then char_of (n + 32) else c)"

function pow2 :: "nat \<Rightarrow> bool" where
  "pow2 n = (if n \<le> 1 then n = 1 else even n \<and> pow2 (n div 2))"
  by pat_completeness auto
termination
  by (relation "measure id") auto

text \<open>The rationals that the reference library knows to be doubles.\<close>

definition small_double :: "rat \<Rightarrow> bool" where
  "small_double q =
     (case quotient_of q of (a, b) \<Rightarrow> \<bar>a\<bar> \<le> 2 ^ 53 \<and> pow2 (nat b) \<and> b \<le> 2 ^ 1000)"

definition ref_float_of_int :: "int \<Rightarrow> pyfloat result" where
  "ref_float_of_int n =
     (if \<bar>n\<bar> \<le> 2 ^ 53 then Inr (Finite (of_int n))
      else if 2 ^ 1024 \<le> \<bar>n\<bar> then Inl OverflowError
      else Inl NotModelled)"

text \<open>
  The exponent part of a decimal literal: nothing, or \<^verbatim>\<open>e\<close> with an optional sign and
  digits.
\<close>

definition exponent_part :: "string \<Rightarrow> int option" where
  "exponent_part r =
     (case r of
        [] \<Rightarrow> Some 0
      | c # ds \<Rightarrow>
          (if lower c \<noteq> CHR ''e'' then None
           else (case ds of
                   [] \<Rightarrow> None
                 | d # es \<Rightarrow>
                     (if d = CHR ''-'' then map_option (\<lambda>n. - int n) (index_digits es)
                      else if d = CHR ''+'' then map_option int (index_digits es)
                      else map_option int (index_digits ds)))))"

text \<open>
  The value of an unsigned decimal literal: digits, an optional point with digits, an
  optional exponent, at least one digit before the exponent.
\<close>

definition decimal_literal :: "string \<Rightarrow> rat option" where
  "decimal_literal u =
     (let ip = takeWhile is_digit u;
          r1 = dropWhile is_digit u;
          pt = (r1 \<noteq> [] \<and> hd r1 = CHR ''.'');
          fp = (if pt then takeWhile is_digit (tl r1) else []);
          r2 = (if pt then dropWhile is_digit (tl r1) else r1)
      in if ip @ fp = [] then None
         else (case (index_digits (ip @ fp), exponent_part r2) of
                 (Some m, Some ex) \<Rightarrow> Some (of_nat m * 10 powi (ex - int (length fp)))
               | _ \<Rightarrow> None))"

text \<open>
  A string with a letter that occurs in no float literal (all letters but those of
  \<^verbatim>\<open>e\<close>, \<^verbatim>\<open>inf\<close>, \<^verbatim>\<open>infinity\<close> and \<^verbatim>\<open>nan\<close>) makes \<^verbatim>\<open>float\<close> raise ValueError.
\<close>

definition ref_float_of_str :: "string \<Rightarrow> pyfloat result" where
  "ref_float_of_str s =
     (let t = strip s;
          neg = (t \<noteq> [] \<and> hd t = CHR ''-'');
          u = (if t \<noteq> [] \<and> (hd t = CHR ''-'' \<or> hd t = CHR ''+'') then tl t else t);
          w = map lower u
      in if list_ex (\<lambda>c. is_letter c \<and> c \<notin> set ''eEiInNfFtTyYaA'') s then Inl ValueError
         else if w = ''inf'' \<or> w = ''infinity'' then Inr (if neg then NegInf else PosInf)
         else if w = ''nan'' then Inr NaN
         else (case decimal_literal u of
                 None \<Rightarrow> Inl NotModelled
               | Some q \<Rightarrow>
                   (if \<not> small_double q then Inl NotModelled
                    else if q = 0 \<and> neg then Inr NegZero
                    else Inr (Finite (if neg then - q else q)))))"

function dec_digits :: "nat \<Rightarrow> string" where
  "dec_digits n =
     (if n < 10 then [char_of (48 + n)]
      else dec_digits (n div 10) @ [char_of (48 + n mod 10)])"
  by pat_completeness auto
termination
  by (relation "measure id") auto

definition ref_str_other :: "pyval \<Rightarrow> string" where
  "ref_str_other v =
     (case v of
        PNone \<Rightarrow> ''None''
      | PBool b \<Rightarrow> (if b then ''True'' else ''False'')
      | PInt n \<Rightarrow> (if n < 0 then CHR ''-'' # dec_digits (nat (- n)) else dec_digits (nat n))
      | _ \<Rightarrow> [CHR 0x00])"

definition ref_lib :: pylib where
  "ref_lib =
     \<lparr> jmespath_search = ref_search,
       re_search = ref_re_search,
       str_other = ref_str_other,
       float_of_int = ref_float_of_int,
       float_of_str = ref_float_of_str \<rparr>"

section \<open>Notions used in the statements\<close>

text \<open>The operator and the expected value of a rule, with the defaults of \<^verbatim>\<open>rule.get\<close>.\<close>

definition rule_operator :: "rule \<Rightarrow> pyval" where
  "rule_operator rule = dict_get rule ''operator'' (PStr ''exists'')"

definition rule_expected :: "rule \<Rightarrow> pyval" where
  "rule_expected rule = dict_get rule ''expected'' PNone"

text \<open>
  One-level splicing as the specification words it: an element that is itself a sequence
  is spliced into the parent, any other element is kept as it is.
\<close>

fun splice_one :: "pyval \<Rightarrow> pyval list" where
  "splice_one (PList sub) = sub"
| "splice_one v = [v]"

text \<open>
  The cases in which a single-value evaluation raises, in the terms of the source.
  \<open>membership_defined x e\<close>: \<^verbatim>\<open>x in e\<close> is defined, that is \<open>e\<close> is a list, or a string and
  \<open>x\<close> a string too, or a dictionary and \<open>x\<close> hashable.
\<close>

definition membership_defined :: "pyval \<Rightarrow> pyval \<Rightarrow> bool" where
  "membership_defined x e =
     (case e of
        PList ys \<Rightarrow> True
      | PStr s \<Rightarrow> (case x of PStr t \<Rightarrow> True | _ \<Rightarrow> False)
      | PDict kv \<Rightarrow> (case x of PList ys \<Rightarrow> False | PDict kw \<Rightarrow> False | _ \<Rightarrow> True)
      | _ \<Rightarrow> False)"

text \<open>
  The rule context of \<^verbatim>\<open>_eval_single\<close>: the path expression is present and not a string
  (it has no \<^verbatim>\<open>endswith\<close>), or it is a string that ends with \<^verbatim>\<open>tls_min_version\<close>.
\<close>

definition path_not_string :: "rule option \<Rightarrow> bool" where
  "path_not_string ctx =
     (case ctx of
        None \<Rightarrow> False
      | Some r \<Rightarrow>
          (case map_of r ''jmespath'' of
             None \<Rightarrow> False
           | Some (PStr s) \<Rightarrow> False
           | Some _ \<Rightarrow> True))"

definition version_context :: "rule option \<Rightarrow> bool" where
  "version_context ctx =
     (case ctx of
        None \<Rightarrow> False
      | Some r \<Rightarrow>
          (case map_of r ''jmespath'' of
             Some (PStr s) \<Rightarrow> endswith s ''tls_min_version''
           | _ \<Rightarrow> False))"

text \<open>
  A value on which the version transform raises: a string that starts with \<^verbatim>\<open>tls\<close> and
  is not an integer literal once every \<^verbatim>\<open>tls\<close> is removed.
\<close>

definition malformed_version :: "pyval \<Rightarrow> bool" where
  "malformed_version v =
     (case v of
        PStr s \<Rightarrow> startswith s ''tls'' \<and> isl (py_int_of_str (str_remove ''tls'' s))
      | _ \<Rightarrow> False)"

text \<open>
  \<open>single_raises\<close>: the evaluation of one value raises. For \<^verbatim>\<open>equals\<close>, \<^verbatim>\<open>not_equals\<close>,
  \<^verbatim>\<open>gt\<close> and \<^verbatim>\<open>lt\<close> this needs the rule context: a path that is not a string, or a version
  path with a malformed version or, for the two order operators, transformed operands
  that have no order. For \<^verbatim>\<open>in\<close> it is a non-null value whose membership in the
  expected value is not defined, for \<^verbatim>\<open>regex\<close> a non-null value with an expected value
  that is not a string or on which the search of the library raises. No other operator
  raises.
\<close>

definition single_raises :: "pylib \<Rightarrow> pyval \<Rightarrow> pyval \<Rightarrow> pyval \<Rightarrow> rule option \<Rightarrow> bool" where
  "single_raises L operator x e ctx =
     (if operator \<in> set (map PStr [''equals'', ''not_equals'', ''gt'', ''lt'']) then
        path_not_string ctx \<or>
        (version_context ctx \<and>
           (malformed_version x \<or> malformed_version e \<or>
            (operator = PStr ''gt'' \<and>
               isl (py_gt (projr (tls_version_to_num x)) (projr (tls_version_to_num e)))) \<or>
            (operator = PStr ''lt'' \<and>
               isl (py_lt (projr (tls_version_to_num x)) (projr (tls_version_to_num e))))))
      else if operator = PStr ''in'' then x \<noteq> PNone \<and> \<not> membership_defined x e
      else if operator = PStr ''regex'' then
        x \<noteq> PNone \<and>
        (case e of
           PStr p \<Rightarrow> isl (re_search L p (case x of PStr s \<Rightarrow> s | _ \<Rightarrow> str_other L x))
         | _ \<Rightarrow> True)
      else False)"

text \<open>
  \<open>sequence_raises\<close>: over a sequence the elements are evaluated in order as long as they
  leave the aggregate open (true for \<^verbatim>\<open>all\<close>, false for the \<^verbatim>\<open>any\<close> of \<^verbatim>\<open>regex\<close>); the
  aggregate raises when the first other element is one whose evaluation raises.
\<close>

definition sequence_raises :: "pylib \<Rightarrow> pyval \<Rightarrow> pyval \<Rightarrow> pyval list \<Rightarrow> bool" where
  "sequence_raises L operator e flat =
     (case dropWhile (\<lambda>x. eval_single L operator x e None = Inr (operator \<noteq> PStr ''regex'')) flat of
        [] \<Rightarrow> False
      | x # rest \<Rightarrow> single_raises L operator x e None)"

text \<open>A library whose path search raises on every expression.\<close>

definition failing_lib :: pylib where
  "failing_lib = ref_lib\<lparr>jmespath_search := (\<lambda>expr doc. Inl JMESPathError)\<rparr>"

text \<open>The rule without its path expression: the key \<^verbatim>\<open>jmespath\<close> is deleted.\<close>

definition without_path :: "rule \<Rightarrow> rule" where
  "without_path rule = filter (\<lambda>kv. fst kv \<noteq> ''jmespath'') rule"

section \<open>Auxiliary facts\<close>

lemma py_all_True_iff: "py_all f xs = Inr True \<longleftrightarrow> list_all (\<lambda>x. f x = Inr True) xs"
  by (induction xs) (auto split: sum.splits)

lemma py_all_total: "list_all (\<lambda>x. \<not> isl (f x)) xs \<Longrightarrow> \<not> isl (py_all f xs)"
  by (induction xs) (auto split: sum.splits)

lemma py_any_True_iff: "py_any f xs = Inr True \<Longrightarrow> list_ex (\<lambda>x. f x = Inr True) xs"
  by (induction xs) (auto split: sum.splits if_splits)

lemma py_any_False_iff: "py_any f xs = Inr False \<Longrightarrow> \<not> list_ex (\<lambda>x. f x = Inr True) xs"
  by (induction xs) (auto split: sum.splits if_splits)

lemma py_any_total: "list_all (\<lambda>x. \<not> isl (f x)) xs \<Longrightarrow> \<not> isl (py_any f xs)"
  by (induction xs) (auto split: sum.splits)

lemma flatten_loop_acc: "flatten_loop flat items = flat @ concat (map splice_one items)"
  by (induction items arbitrary: flat) (auto split: pyval.splits)

lemma tls_rule_None: "tls_rule None = Inr False"
  by (simp add: tls_rule_def)

lemma eval_single_unknown:
  assumes "operator \<notin> PStr ` set OPERATORS"
  shows "eval_single L operator x e r = Inr False"
  using assms by (simp add: eval_single_def OPERATORS_def)

lemma evaluate_rule_list:
  assumes "observe L rule doc = PList items"
  shows "evaluate_rule L rule doc =
     (case aggregate L (rule_operator rule) (rule_expected rule) (flatten_loop [] items) of
        Inl e \<Rightarrow> Inl e
      | Inr p \<Rightarrow> Inr (make_verdict rule p (PList (flatten_loop [] items))))"
  using assms by (simp add: evaluate_rule_def rule_operator_def rule_expected_def Let_def)

lemma evaluate_rule_single:
  assumes "observe L rule doc = obs" and "\<And>items. obs \<noteq> PList items"
  shows "evaluate_rule L rule doc =
     (case eval_single L (rule_operator rule) obs (rule_expected rule) (Some rule) of
        Inl e \<Rightarrow> Inl e
      | Inr p \<Rightarrow> Inr (make_verdict rule p obs))"
  using assms by (cases obs)
    (auto simp: evaluate_rule_def rule_operator_def rule_expected_def Let_def
          cong: sum.case_cong)

lemma vd_passed_make [simp]: "vd_passed (make_verdict rule p obs) = p"
  by (simp add: make_verdict_def)

lemma vd_observed_make [simp]: "vd_observed (make_verdict rule p obs) = obs"
  by (simp add: make_verdict_def)

lemma aggregate_not_regex:
  "operator \<noteq> PStr ''regex'' \<Longrightarrow>
   aggregate L operator expected flat =
     py_all (\<lambda>item. eval_single L operator item expected None) flat"
  by (simp add: aggregate_def)

lemma aggregate_regex:
  "aggregate L (PStr ''regex'') expected flat =
     (case py_any (\<lambda>item. eval_single L (PStr ''regex'') item expected None) flat of
        Inl e \<Rightarrow> Inl e | Inr b \<Rightarrow> Inr (\<not> b))"
  by (simp add: aggregate_def)

lemma py_all_const_False: "xs \<noteq> [] \<Longrightarrow> py_all (\<lambda>x. Inr False) xs = Inr False"
  by (cases xs) simp_all

lemma py_any_result:
  "py_any f xs = Inr b \<Longrightarrow> b = list_ex (\<lambda>x. f x = Inr True) xs"
  by (cases b) (auto dest: py_any_True_iff py_any_False_iff)

lemma py_all_result:
  "py_all f xs = Inr b \<Longrightarrow> b = list_all (\<lambda>x. f x = Inr True) xs"
  using py_all_True_iff [of f xs] by (cases b) auto

lemma py_all_pure: "py_all (\<lambda>x. Inr (P x)) xs = Inr (list_all P xs)"
  by (induction xs) auto

lemma flatten_loop_nested:
  "PList ys \<in> set items \<Longrightarrow> PList sub \<in> set ys \<Longrightarrow> PList sub \<in> set (flatten_loop [] items)"
  by (force simp: flatten_loop_acc)

lemma run_loop_acc:
  "run_loop L acc rules doc = Inr vs \<longleftrightarrow>
     (\<exists>ws. vs = acc @ ws \<and> map (\<lambda>r. evaluate_rule L r doc) rules = map Inr ws)"
proof (induction rules arbitrary: acc vs)
  case Nil
  then show ?case by auto
next
  case (Cons r rs)
  show ?case
  proof (cases "evaluate_rule L r doc")
    case (Inl e)
    then show ?thesis by auto
  next
    case (Inr v)
    then show ?thesis using Cons.IH [of "acc @ [v]" vs]
      by (auto simp: map_eq_Cons_conv)
  qed
qed

lemma map_of_without_path:
  "k \<noteq> ''jmespath'' \<Longrightarrow> map_of (without_path rule) k = map_of rule k"
  unfolding without_path_def by (induction rule) auto

lemma map_of_without_path_None: "map_of (without_path rule) ''jmespath'' = None"
  unfolding without_path_def by (induction rule) auto

lemma dict_get_without_path:
  "k \<noteq> ''jmespath'' \<Longrightarrow> dict_get (without_path rule) k d = dict_get rule k d"
  by (simp add: dict_get_def map_of_without_path)

lemma tls_rule_without_path: "tls_rule (Some (without_path rule)) = Inr False"
  by (simp add: tls_rule_def dict_get_def map_of_without_path_None endswith_def)

lemma tls_rule_empty_path:
  "map_of rule ''jmespath'' = Some (PStr []) \<Longrightarrow> tls_rule (Some rule) = Inr False"
  by (auto simp: tls_rule_def dict_get_def endswith_def)

lemma eval_single_None_total:
  "tls_rule r = Inr False \<Longrightarrow>
   eval_single L operator PNone e r = eval_single L operator PNone e None
   \<and> \<not> isl (eval_single L operator PNone e None)"
  by (simp add: eval_single_def tls_rule_None)

lemma tls_rule_cases:
  "tls_rule ctx = (if path_not_string ctx then Inl AttributeError else Inr (version_context ctx))"
  by (auto simp: tls_rule_def path_not_string_def version_context_def dict_get_def endswith_def
           split: option.splits pyval.splits)

lemma tls_version_to_num_raises: "isl (tls_version_to_num v) = malformed_version v"
  by (auto simp: tls_version_to_num_def malformed_version_def split: pyval.splits sum.splits)

lemma tls_compare_raises:
  "isl (tls_compare cmp x e) =
     (malformed_version x \<or> malformed_version e \<or>
      isl (cmp (projr (tls_version_to_num x)) (projr (tls_version_to_num e))))"
  unfolding tls_version_to_num_raises [symmetric]
  by (cases "tls_version_to_num x"; cases "tls_version_to_num e") (simp_all add: tls_compare_def)

lemma py_in_raises: "isl (py_in x e) = (\<not> membership_defined x e)"
  by (cases e; cases x) (simp_all add: membership_defined_def)

lemma py_re_search_raises:
  "isl (py_re_search L e s) = (case e of PStr p \<Rightarrow> isl (re_search L p s) | _ \<Rightarrow> True)"
  by (cases e) (simp_all add: py_re_search_def)

lemma eval_single_raises: "isl (eval_single L operator x e ctx) = single_raises L operator x e ctx"
  by (simp add: eval_single_def single_raises_def tls_rule_cases tls_compare_raises
        py_in_raises py_re_search_raises py_str_def)

lemma py_all_raises:
  "isl (py_all f xs) =
     (case dropWhile (\<lambda>x. f x = Inr True) xs of [] \<Rightarrow> False | x # rest \<Rightarrow> isl (f x))"
  by (induction xs) (auto split: sum.splits)

lemma py_any_raises:
  "isl (py_any f xs) =
     (case dropWhile (\<lambda>x. f x = Inr False) xs of [] \<Rightarrow> False | x # rest \<Rightarrow> isl (f x))"
  by (induction xs) (auto split: sum.splits)

lemma aggregate_raises:
  "isl (aggregate L operator e flat) = sequence_raises L operator e flat"
proof (cases "operator = PStr ''regex''")
  case True
  have "isl (aggregate L operator e flat)
      = isl (py_any (\<lambda>item. eval_single L operator item e None) flat)"
    by (simp add: aggregate_def True split: sum.splits)
  then show ?thesis
    by (simp add: py_any_raises sequence_raises_def True eval_single_raises
          cong: list.case_cong)
next
  case False
  then show ?thesis
    by (simp add: aggregate_not_regex py_all_raises sequence_raises_def eval_single_raises
          cong: list.case_cong)
qed

lemma eval_single_regex:
  "eval_single L (PStr ''regex'') x e None =
     (if x = PNone then Inr False
      else (case e of
              PStr p \<Rightarrow> re_search L p (case x of PStr s \<Rightarrow> s | _ \<Rightarrow> str_other L x)
            | _ \<Rightarrow> Inl TypeError))"
  by (simp add: eval_single_def py_re_search_def py_str_def)
lemma run_rules_returns_iff:
  "run_rules_for_file L rules doc = Inr vs \<longleftrightarrow>
     map (\<lambda>r. evaluate_rule L r doc) rules = map Inr vs"
  by (simp add: run_rules_for_file_def run_loop_acc)

section \<open>Failure semantics\<close>

text \<open>
  Claim C1, as amended. Evaluating a rule returns a verdict except in the cases that
  \<open>single_raises\<close> and \<open>sequence_raises\<close> list, and in exactly those the exception
  propagates: on an observation that is not a sequence the one evaluation decides, with
  the rule as context; on a sequence the elements of the spliced sequence decide, without
  context. When the path search raised, the observation is null.
\<close>

theorem evaluate_rule_raises_exactly:
  "isl (evaluate_rule L rule doc) =
     (case observe L rule doc of
        PList items \<Rightarrow>
          sequence_raises L (rule_operator rule) (rule_expected rule)
            (concat (map splice_one items))
      | obs \<Rightarrow> single_raises L (rule_operator rule) obs (rule_expected rule) (Some rule))
   \<and> (isl (jmespath_search L (dict_get rule ''jmespath'' PNone) doc)
        \<longrightarrow> observe L rule doc = PNone)"
proof -
  have one: "isl (evaluate_rule L rule doc) =
     (case observe L rule doc of
        PList items \<Rightarrow>
          sequence_raises L (rule_operator rule) (rule_expected rule)
            (concat (map splice_one items))
      | obs \<Rightarrow> single_raises L (rule_operator rule) obs (rule_expected rule) (Some rule))"
  proof (cases "\<exists>items. observe L rule doc = PList items")
    case True
    then obtain items where obs: "observe L rule doc = PList items" by blast
    have "isl (evaluate_rule L rule doc)
        = isl (aggregate L (rule_operator rule) (rule_expected rule) (flatten_loop [] items))"
      by (simp add: evaluate_rule_list [OF obs] split: sum.splits)
    then show ?thesis
      by (simp add: obs aggregate_raises flatten_loop_acc)
  next
    case False
    then have nl: "\<And>items. observe L rule doc \<noteq> PList items" by blast
    have "isl (evaluate_rule L rule doc)
        = isl (eval_single L (rule_operator rule) (observe L rule doc) (rule_expected rule)
                 (Some rule))"
      by (simp add: evaluate_rule_single [OF refl nl] split: sum.splits)
    then show ?thesis using nl
      by (cases "observe L rule doc") (auto simp: eval_single_raises)
  qed
  have two: "isl (jmespath_search L (dict_get rule ''jmespath'' PNone) doc)
        \<longrightarrow> observe L rule doc = PNone"
    by (auto simp: observe_def Let_def split: sum.splits)
  from one two show ?thesis by blast
qed

theorem evaluate_rule_raises_exactly_witness:
  "isl (jmespath_search failing_lib
         (dict_get [(''jmespath'', PStr ''foo[''), (''operator'', PStr ''gt''), (''expected'', PInt 5)]
            ''jmespath'' PNone) (PDict []))
   \<and> observe failing_lib
        [(''jmespath'', PStr ''foo[''), (''operator'', PStr ''gt''), (''expected'', PInt 5)]
        (PDict []) = PNone
   \<and> \<not> isl (evaluate_rule failing_lib
        [(''jmespath'', PStr ''foo[''), (''operator'', PStr ''gt''), (''expected'', PInt 5)]
        (PDict []))"
proof -
  let ?r = "[(''jmespath'', PStr ''foo[''), (''operator'', PStr ''gt''), (''expected'', PInt 5)]"
  have a: "isl (jmespath_search failing_lib (dict_get ?r ''jmespath'' PNone) (PDict []))"
    by (simp add: failing_lib_def)
  from evaluate_rule_raises_exactly [of failing_lib ?r "PDict []"] a
  have b: "observe failing_lib ?r (PDict []) = PNone"
    and c: "isl (evaluate_rule failing_lib ?r (PDict [])) =
      single_raises failing_lib (rule_operator ?r) PNone (rule_expected ?r) (Some ?r)"
    by simp_all
  have "\<not> single_raises failing_lib (rule_operator ?r) PNone (rule_expected ?r) (Some ?r)"
    by (simp add: single_raises_def rule_operator_def dict_get_def path_not_string_def
          version_context_def endswith_def)
  with a b c show ?thesis by simp
qed

text \<open>
  Claim C1 as stated does not hold. Each of these evaluations raises: \<^verbatim>\<open>in\<close> with an
  expected value that is not a container; \<^verbatim>\<open>equals\<close> on a version path with the observed
  string \<^verbatim>\<open>tlsv1.2\<close>; \<^verbatim>\<open>regex\<close> with the malformed pattern \<^verbatim>\<open>(BEGIN\<close>; \<^verbatim>\<open>regex\<close> without an
  expected value; \<^verbatim>\<open>gt\<close> on a version path between the string \<^verbatim>\<open>1.2\<close> and a version;
  \<^verbatim>\<open>equals\<close> in a rule whose path expression is the number 5.
\<close>

theorem evaluate_rule_raises:
  "evaluate_rule ref_lib
     [(''jmespath'', PStr ''foo''), (''operator'', PStr ''in''), (''expected'', PInt 5)]
     (PDict [(''foo'', PInt 1)]) = Inl TypeError
   \<and> evaluate_rule ref_lib
     [(''jmespath'', PStr ''tls_min_version''), (''operator'', PStr ''equals''),
      (''expected'', PStr ''tls12'')]
     (PDict [(''tls_min_version'', PStr ''tlsv1.2'')]) = Inl ValueError
   \<and> evaluate_rule ref_lib
     [(''jmespath'', PStr ''key''), (''operator'', PStr ''regex''), (''expected'', PStr ''(BEGIN'')]
     (PDict [(''key'', PStr ''abc'')]) = Inl ReError
   \<and> evaluate_rule ref_lib
     [(''jmespath'', PStr ''key''), (''operator'', PStr ''regex'')]
     (PDict [(''key'', PStr ''abc'')]) = Inl TypeError
   \<and> evaluate_rule ref_lib
     [(''jmespath'', PStr ''tls_min_version''), (''operator'', PStr ''gt''),
      (''expected'', PStr ''tls12'')]
     (PDict [(''tls_min_version'', PStr ''1.2'')]) = Inl TypeError
   \<and> evaluate_rule ref_lib
     [(''jmespath'', PInt 5), (''operator'', PStr ''equals''), (''expected'', PInt 1)]
     (PDict [(''foo'', PInt 1)]) = Inl AttributeError"
  by code_simp

section \<open>Version comparison\<close>

text \<open>
  Claim C2. With the path \<^verbatim>\<open>listener[*].tls_min_version\<close> the observation is a list, its
  elements are compared without the version transform and \<^verbatim>\<open>"tls12" > "tls11"\<close> is
  evaluated as a failed float coercion; with \<^verbatim>\<open>listener[0].tls_min_version\<close> the same
  comparison goes through the transform and passes.
\<close>

theorem tls_list_elements_unversioned:
  "map_sum id vd_passed (evaluate_rule ref_lib
     [(''jmespath'', PStr ''listener[*].tls_min_version''), (''operator'', PStr ''gt''),
      (''expected'', PStr ''tls11'')]
     (PDict [(''listener'', PList [PDict [(''tls_min_version'', PStr ''tls12'')]])])) = Inr False
   \<and> map_sum id vd_passed (evaluate_rule ref_lib
     [(''jmespath'', PStr ''listener[0].tls_min_version''), (''operator'', PStr ''gt''),
      (''expected'', PStr ''tls11'')]
     (PDict [(''listener'', PList [PDict [(''tls_min_version'', PStr ''tls12'')]])])) = Inr True"
  by code_simp

text \<open>The three version examples of the specification, on a single observation.\<close>

lemma tls_equals_examples:
  "map_sum id vd_passed (evaluate_rule ref_lib
     [(''jmespath'', PStr ''listener[0].tls_min_version''), (''operator'', PStr ''equals''),
      (''expected'', PStr ''tls12'')]
     (PDict [(''listener'', PList [PDict [(''tls_min_version'', PStr ''tls12'')]])])) = Inr True"
  "map_sum id vd_passed (evaluate_rule ref_lib
     [(''jmespath'', PStr ''listener[0].tls_min_version''), (''operator'', PStr ''equals''),
      (''expected'', PStr ''tls12'')]
     (PDict [(''listener'', PList [PDict [(''tls_min_version'', PStr ''tls13'')]])])) = Inr False"
  "map_sum id vd_passed (evaluate_rule ref_lib
     [(''jmespath'', PStr ''listener[0].tls_min_version''), (''operator'', PStr ''equals''),
      (''expected'', PStr ''tls12'')]
     (PDict [(''listener'', PList [PDict [(''type'', PStr ''tcp'')]])])) = Inr False"
  by code_simp+

section \<open>Unknown operators\<close>

text \<open>
  Claim C3, as amended. A rule whose operator is not one of the eight known ones has a
  failed verdict whenever the observation is not a sequence, or is a sequence that is
  not empty after flattening.
\<close>

theorem unknown_operator_fails:
  assumes unk: "rule_operator rule \<notin> PStr ` set OPERATORS"
    and ne: "case observe L rule doc of PList items \<Rightarrow> flatten_loop [] items \<noteq> [] | _ \<Rightarrow> True"
  shows "\<exists>v. evaluate_rule L rule doc = Inr v \<and> \<not> vd_passed v"
proof (cases "\<exists>items. observe L rule doc = PList items")
  case True
  then obtain items where obs: "observe L rule doc = PList items" by blast
  from unk have nr: "rule_operator rule \<noteq> PStr ''regex''"
    by (auto simp: OPERATORS_def)
  from ne obs have "flatten_loop [] items \<noteq> []" by simp
  then have "aggregate L (rule_operator rule) (rule_expected rule) (flatten_loop [] items)
      = Inr False"
    using unk by (simp add: aggregate_not_regex [OF nr] eval_single_unknown py_all_const_False)
  then show ?thesis by (simp add: evaluate_rule_list [OF obs])
next
  case False
  then have nl: "\<And>items. observe L rule doc \<noteq> PList items" by blast
  show ?thesis
    using unk by (simp add: evaluate_rule_single [OF refl nl] eval_single_unknown)
qed

theorem unknown_operator_fails_witness:
  "rule_operator [(''jmespath'', PStr ''listener[*].address''), (''operator'', PStr ''startswith''),
      (''expected'', PStr ''127'')] \<notin> PStr ` set OPERATORS
   \<and> observe ref_lib [(''jmespath'', PStr ''listener[*].address''), (''operator'', PStr ''startswith''),
      (''expected'', PStr ''127'')]
      (PDict [(''listener'', PList [PDict [(''address'', PStr ''127.0.0.1:8200'')]])])
       = PList [PStr ''127.0.0.1:8200'']
   \<and> (\<exists>v. evaluate_rule ref_lib
        [(''jmespath'', PStr ''listener[*].address''), (''operator'', PStr ''startswith''),
         (''expected'', PStr ''127'')]
        (PDict [(''listener'', PList [PDict [(''address'', PStr ''127.0.0.1:8200'')]])]) = Inr v
        \<and> \<not> vd_passed v)"
proof -
  let ?r = "[(''jmespath'', PStr ''listener[*].address''), (''operator'', PStr ''startswith''),
      (''expected'', PStr ''127'')]"
  let ?d = "PDict [(''listener'', PList [PDict [(''address'', PStr ''127.0.0.1:8200'')]])]"
  have a: "rule_operator ?r \<notin> PStr ` set OPERATORS"
    by (simp add: rule_operator_def dict_get_def OPERATORS_def)
  have b: "observe ref_lib ?r ?d = PList [PStr ''127.0.0.1:8200'']"
    by code_simp
  have c: "case observe ref_lib ?r ?d of PList items \<Rightarrow> flatten_loop [] items \<noteq> [] | _ \<Rightarrow> True"
    by (simp add: b)
  from unknown_operator_fails [OF a c] a b show ?thesis by blast
qed

text \<open>
  Claim C3 as stated does not hold: over an empty observed sequence the aggregate is
  vacuously true, also for an unknown operator.
\<close>

theorem unknown_operator_empty_list_passes:
  "rule_operator [(''jmespath'', PStr ''listener[*].address''), (''operator'', PStr ''startswith''),
      (''expected'', PStr ''127'')] \<notin> PStr ` set OPERATORS
   \<and> map_sum id vd_passed (evaluate_rule ref_lib
     [(''jmespath'', PStr ''listener[*].address''), (''operator'', PStr ''startswith''),
      (''expected'', PStr ''127'')]
     (PDict [(''listener'', PList [])])) = Inr True"
  by (simp add: rule_operator_def dict_get_def OPERATORS_def, code_simp)

section \<open>Aggregation over a sequence observation\<close>

text \<open>
  Claim C4. On the rule \<^verbatim>\<open>listener[*].tls_min_version gt "tls11"\<close> the observation is the
  sequence \<^verbatim>\<open>["tls12"]\<close>. The single-value predicate of this rule holds for its one
  element (12 is greater than 11), and the verdict fails all the same: the aggregate
  evaluates the elements without the rule.
\<close>

theorem list_aggregate_drops_rule_context:
  "observe ref_lib
     [(''jmespath'', PStr ''listener[*].tls_min_version''), (''operator'', PStr ''gt''),
      (''expected'', PStr ''tls11'')]
     (PDict [(''listener'', PList [PDict [(''tls_min_version'', PStr ''tls12'')]])])
     = PList [PStr ''tls12'']
   \<and> list_all
       (\<lambda>x. eval_single ref_lib (PStr ''gt'') x (PStr ''tls11'')
              (Some [(''jmespath'', PStr ''listener[*].tls_min_version''),
                     (''operator'', PStr ''gt''), (''expected'', PStr ''tls11'')]) = Inr True)
       [PStr ''tls12'']
   \<and> map_sum id vd_passed (evaluate_rule ref_lib
       [(''jmespath'', PStr ''listener[*].tls_min_version''), (''operator'', PStr ''gt''),
        (''expected'', PStr ''tls11'')]
       (PDict [(''listener'', PList [PDict [(''tls_min_version'', PStr ''tls12'')]])])) = Inr False"
  by code_simp

text \<open>
  What the aggregate does compute for an operator other than \<^verbatim>\<open>regex\<close>: the conjunction,
  over the flattened elements, of the predicate without rule context.
\<close>

lemma list_aggregate_without_context:
  assumes nr: "rule_operator rule \<noteq> PStr ''regex''"
    and obs: "observe L rule doc = PList items"
  shows "(evaluate_rule L rule doc = Inr v \<longrightarrow>
            vd_passed v = list_all
              (\<lambda>x. eval_single L (rule_operator rule) x (rule_expected rule) None = Inr True)
              (flatten_loop [] items))
       \<and> (list_all
            (\<lambda>x. \<not> isl (eval_single L (rule_operator rule) x (rule_expected rule) None))
            (flatten_loop [] items) \<longrightarrow> \<not> isl (evaluate_rule L rule doc))"
proof -
  let ?P = "\<lambda>x. eval_single L (rule_operator rule) x (rule_expected rule) None"
  let ?flat = "flatten_loop [] items"
  have ev: "evaluate_rule L rule doc =
      (case py_all ?P ?flat of Inl e \<Rightarrow> Inl e
       | Inr p \<Rightarrow> Inr (make_verdict rule p (PList ?flat)))"
    by (simp add: evaluate_rule_list [OF obs] aggregate_not_regex [OF nr])
  have one: "evaluate_rule L rule doc = Inr v \<longrightarrow>
      vd_passed v = list_all (\<lambda>x. ?P x = Inr True) ?flat"
  proof
    assume "evaluate_rule L rule doc = Inr v"
    with ev obtain p where p: "py_all ?P ?flat = Inr p" and v: "v = make_verdict rule p (PList ?flat)"
      by (auto split: sum.splits)
    from py_all_result [OF p] v show "vd_passed v = list_all (\<lambda>x. ?P x = Inr True) ?flat"
      by simp
  qed
  have two: "list_all (\<lambda>x. \<not> isl (?P x)) ?flat \<longrightarrow> \<not> isl (evaluate_rule L rule doc)"
  proof
    assume "list_all (\<lambda>x. \<not> isl (?P x)) ?flat"
    then have "\<not> isl (py_all ?P ?flat)" by (rule py_all_total)
    then show "\<not> isl (evaluate_rule L rule doc)"
      by (cases "py_all ?P ?flat") (simp_all add: ev)
  qed
  from one two show ?thesis by blast
qed

text \<open>
  The examples of the specification: \<^verbatim>\<open>[1,1,1]\<close> passes \<^verbatim>\<open>equals 1\<close>, \<^verbatim>\<open>[1,2,1]\<close> fails
  it, and an empty observed sequence passes.
\<close>

lemma list_aggregate_examples:
  "map_sum id vd_passed (evaluate_rule ref_lib
     [(''jmespath'', PStr ''ports''), (''operator'', PStr ''equals''), (''expected'', PInt 1)]
     (PDict [(''ports'', PList [PInt 1, PInt 1, PInt 1])])) = Inr True"
  "map_sum id vd_passed (evaluate_rule ref_lib
     [(''jmespath'', PStr ''ports''), (''operator'', PStr ''equals''), (''expected'', PInt 1)]
     (PDict [(''ports'', PList [PInt 1, PInt 2, PInt 1])])) = Inr False"
  "map_sum id vd_passed (evaluate_rule ref_lib
     [(''jmespath'', PStr ''ports''), (''operator'', PStr ''equals''), (''expected'', PInt 1)]
     (PDict [(''ports'', PList [])])) = Inr True"
  by code_simp+

lemma empty_sequence_passes:
  assumes "rule_operator rule \<noteq> PStr ''regex''" and "observe L rule doc = PList items"
    and "flatten_loop [] items = []"
  shows "evaluate_rule L rule doc = Inr (make_verdict rule True (PList []))"
  using assms by (simp add: evaluate_rule_list aggregate_not_regex)

text \<open>
  Claim C5. For a rule with operator \<^verbatim>\<open>regex\<close> and a sequence observation, a returned
  verdict fails exactly when some element of the sequence spliced one level matches the
  pattern: it is non-null, the expected value is a string \<open>p\<close>, and \<^verbatim>\<open>re.search\<close> finds
  \<open>p\<close> in its text (the string itself, or \<^verbatim>\<open>str\<close> of another value). A verdict is
  returned whenever the search is defined on every non-null element.
\<close>

theorem regex_aggregate_fails_on_match:
  assumes re: "rule_operator rule = PStr ''regex''"
    and obs: "observe L rule doc = PList items"
  shows "(evaluate_rule L rule doc = Inr v \<longrightarrow>
            vd_passed v =
              (\<not> list_ex
                 (\<lambda>x. x \<noteq> PNone \<and>
                      (case rule_expected rule of
                         PStr p \<Rightarrow>
                           re_search L p (case x of PStr s \<Rightarrow> s | _ \<Rightarrow> str_other L x) = Inr True
                       | _ \<Rightarrow> False))
                 (concat (map splice_one items))))
       \<and> (list_all
            (\<lambda>x. x = PNone \<or>
                 (case rule_expected rule of
                    PStr p \<Rightarrow>
                      \<not> isl (re_search L p (case x of PStr s \<Rightarrow> s | _ \<Rightarrow> str_other L x))
                  | _ \<Rightarrow> False))
            (concat (map splice_one items)) \<longrightarrow> \<not> isl (evaluate_rule L rule doc))"
proof -
  let ?e = "rule_expected rule"
  let ?P = "\<lambda>x. eval_single L (PStr ''regex'') x ?e None"
  let ?flat = "concat (map splice_one items)"
  have fl: "flatten_loop [] items = ?flat" by (simp add: flatten_loop_acc)
  have ev: "evaluate_rule L rule doc =
      (case py_any ?P ?flat of Inl e \<Rightarrow> Inl e
       | Inr b \<Rightarrow> Inr (make_verdict rule (\<not> b) (PList ?flat)))"
    by (simp add: evaluate_rule_list [OF obs] re fl aggregate_regex split: sum.splits)
  have m: "\<And>x. (?P x = Inr True) =
      (x \<noteq> PNone \<and>
       (case ?e of
          PStr p \<Rightarrow> re_search L p (case x of PStr s \<Rightarrow> s | _ \<Rightarrow> str_other L x) = Inr True
        | _ \<Rightarrow> False))"
    by (cases ?e) (simp_all add: eval_single_regex)
  have t: "\<And>x. (\<not> isl (?P x)) =
      (x = PNone \<or>
       (case ?e of
          PStr p \<Rightarrow> \<not> isl (re_search L p (case x of PStr s \<Rightarrow> s | _ \<Rightarrow> str_other L x))
        | _ \<Rightarrow> False))"
    by (cases ?e) (simp_all add: eval_single_regex)
  have one: "evaluate_rule L rule doc = Inr v \<longrightarrow>
      vd_passed v = (\<not> list_ex (\<lambda>x. ?P x = Inr True) ?flat)"
  proof
    assume "evaluate_rule L rule doc = Inr v"
    with ev obtain b where b: "py_any ?P ?flat = Inr b"
      and v: "v = make_verdict rule (\<not> b) (PList ?flat)"
      by (auto split: sum.splits)
    from py_any_result [OF b] v
    show "vd_passed v = (\<not> list_ex (\<lambda>x. ?P x = Inr True) ?flat)"
      by simp
  qed
  have two: "list_all (\<lambda>x. \<not> isl (?P x)) ?flat \<longrightarrow> \<not> isl (evaluate_rule L rule doc)"
  proof
    assume "list_all (\<lambda>x. \<not> isl (?P x)) ?flat"
    then have "\<not> isl (py_any ?P ?flat)" by (rule py_any_total)
    then show "\<not> isl (evaluate_rule L rule doc)"
      by (cases "py_any ?P ?flat") (simp_all add: ev)
  qed
  from one two show ?thesis unfolding m t by blast
qed
theorem regex_aggregate_fails_on_match_witness:
  "evaluate_rule ref_lib
      [(''jmespath'', PStr ''keys''), (''operator'', PStr ''regex''), (''expected'', PStr ''BEGIN'')]
      (PDict [(''keys'', PList [PStr ''safe'', PStr ''BEGIN SECRET''])])
    = Inr (make_verdict
        [(''jmespath'', PStr ''keys''), (''operator'', PStr ''regex''), (''expected'', PStr ''BEGIN'')]
        False (PList [PStr ''safe'', PStr ''BEGIN SECRET'']))
   \<and> evaluate_rule ref_lib
      [(''jmespath'', PStr ''keys''), (''operator'', PStr ''regex''), (''expected'', PStr ''BEGIN'')]
      (PDict [(''keys'', PList [PList [PStr ''x'', PStr ''BEGIN SECRET''], PStr ''safe''])])
    = Inr (make_verdict
        [(''jmespath'', PStr ''keys''), (''operator'', PStr ''regex''), (''expected'', PStr ''BEGIN'')]
        False (PList [PStr ''x'', PStr ''BEGIN SECRET'', PStr ''safe'']))
   \<and> evaluate_rule ref_lib
      [(''jmespath'', PStr ''keys''), (''operator'', PStr ''regex''), (''expected'', PStr ''BEGIN'')]
      (PDict [(''keys'', PList [PStr ''safe'', PNone, PStr ''begin''])])
    = Inr (make_verdict
        [(''jmespath'', PStr ''keys''), (''operator'', PStr ''regex''), (''expected'', PStr ''BEGIN'')]
        True (PList [PStr ''safe'', PNone, PStr ''begin'']))"
proof -
  let ?r = "[(''jmespath'', PStr ''keys''), (''operator'', PStr ''regex''), (''expected'', PStr ''BEGIN'')]"
  let ?d1 = "PDict [(''keys'', PList [PStr ''safe'', PStr ''BEGIN SECRET''])]"
  let ?d2 = "PDict [(''keys'', PList [PList [PStr ''x'', PStr ''BEGIN SECRET''], PStr ''safe''])]"
  let ?d3 = "PDict [(''keys'', PList [PStr ''safe'', PNone, PStr ''begin''])]"
  have op: "rule_operator ?r = PStr ''regex''" and ex: "rule_expected ?r = PStr ''BEGIN''"
    by (simp_all add: rule_operator_def rule_expected_def dict_get_def)
  have o1: "observe ref_lib ?r ?d1 = PList [PStr ''safe'', PStr ''BEGIN SECRET'']"
    and o2: "observe ref_lib ?r ?d2 = PList [PList [PStr ''x'', PStr ''BEGIN SECRET''], PStr ''safe'']"
    and o3: "observe ref_lib ?r ?d3 = PList [PStr ''safe'', PNone, PStr ''begin'']"
    by code_simp+
  have s1: "re_search ref_lib ''BEGIN'' ''safe'' = Inr False"
    and s2: "re_search ref_lib ''BEGIN'' ''BEGIN SECRET'' = Inr True"
    and s3: "re_search ref_lib ''BEGIN'' ''x'' = Inr False"
    and s4: "re_search ref_lib ''BEGIN'' ''begin'' = Inr False"
    by code_simp+
  have n1: "\<not> isl (evaluate_rule ref_lib ?r ?d1)"
    using regex_aggregate_fails_on_match [OF op o1] by (simp add: ex s1 s2)
  have n2: "\<not> isl (evaluate_rule ref_lib ?r ?d2)"
    using regex_aggregate_fails_on_match [OF op o2] by (simp add: ex s1 s2 s3)
  have n3: "\<not> isl (evaluate_rule ref_lib ?r ?d3)"
    using regex_aggregate_fails_on_match [OF op o3] by (simp add: ex s1 s4)
  from n1 obtain v1 where v1: "evaluate_rule ref_lib ?r ?d1 = Inr v1"
    by (cases "evaluate_rule ref_lib ?r ?d1") auto
  from n2 obtain v2 where v2: "evaluate_rule ref_lib ?r ?d2 = Inr v2"
    by (cases "evaluate_rule ref_lib ?r ?d2") auto
  from n3 obtain v3 where v3: "evaluate_rule ref_lib ?r ?d3 = Inr v3"
    by (cases "evaluate_rule ref_lib ?r ?d3") auto
  have p1: "\<not> vd_passed v1"
    using regex_aggregate_fails_on_match [OF op o1, of v1] v1 by (simp add: ex s1 s2)
  have p2: "\<not> vd_passed v2"
    using regex_aggregate_fails_on_match [OF op o2, of v2] v2 by (simp add: ex s1 s2 s3)
  have p3: "vd_passed v3"
    using regex_aggregate_fails_on_match [OF op o3, of v3] v3 by (simp add: ex s1 s4)
  have f1: "evaluate_rule ref_lib ?r ?d1 = Inr (make_verdict ?r (vd_passed v1) (PList [PStr ''safe'', PStr ''BEGIN SECRET'']))"
    using v1 by (auto simp: evaluate_rule_list [OF o1] split: sum.splits)
  have f2: "evaluate_rule ref_lib ?r ?d2 = Inr (make_verdict ?r (vd_passed v2) (PList [PStr ''x'', PStr ''BEGIN SECRET'', PStr ''safe'']))"
    using v2 by (auto simp: evaluate_rule_list [OF o2] split: sum.splits)
  have f3: "evaluate_rule ref_lib ?r ?d3 = Inr (make_verdict ?r (vd_passed v3) (PList [PStr ''safe'', PNone, PStr ''begin'']))"
    using v3 by (auto simp: evaluate_rule_list [OF o3] split: sum.splits)
  from f1 f2 f3 p1 p2 p3 show ?thesis by simp
qed
section \<open>One-level flattening\<close>

text \<open>
  Claim C6. For a sequence observation the aggregate is applied to, and the verdict
  reports, the sequence spliced one level: sub-sequences are spliced into the parent and
  the other elements kept. The splicing is not recursive: a sequence that is an element
  of a sub-sequence is still an element after flattening.
\<close>

theorem flatten_one_level:
  assumes obs: "observe L rule doc = PList items"
  shows "evaluate_rule L rule doc =
           (case aggregate L (rule_operator rule) (rule_expected rule)
                   (concat (map splice_one items)) of
              Inl e \<Rightarrow> Inl e
            | Inr p \<Rightarrow> Inr (make_verdict rule p (PList (concat (map splice_one items)))))
       \<and> (\<forall>ys sub. PList ys \<in> set items \<longrightarrow> PList sub \<in> set ys \<longrightarrow>
             PList sub \<in> set (concat (map splice_one items)))"
proof -
  have fl: "flatten_loop [] items = concat (map splice_one items)"
    by (simp add: flatten_loop_acc)
  have nested: "\<forall>ys sub. PList ys \<in> set items \<longrightarrow> PList sub \<in> set ys \<longrightarrow>
      PList sub \<in> set (concat (map splice_one items))"
    using flatten_loop_nested [of _ items] unfolding fl by blast
  have "evaluate_rule L rule doc =
           (case aggregate L (rule_operator rule) (rule_expected rule)
                   (concat (map splice_one items)) of
              Inl e \<Rightarrow> Inl e
            | Inr p \<Rightarrow> Inr (make_verdict rule p (PList (concat (map splice_one items)))))"
    unfolding evaluate_rule_list [OF obs] fl ..
  with nested show ?thesis by blast
qed

theorem flatten_one_level_witness:
  "observe ref_lib [(''jmespath'', PStr ''a'')]
      (PDict [(''a'', PList [PList [PList [PInt 1]], PInt 2])])
     = PList [PList [PList [PInt 1]], PInt 2]
   \<and> PList [PList [PInt 1]] \<in> set [PList [PList [PInt 1]], PInt 2]
   \<and> PList [PInt 1] \<in> set [PList [PInt 1]]
   \<and> evaluate_rule ref_lib [(''jmespath'', PStr ''a'')]
        (PDict [(''a'', PList [PList [PList [PInt 1]], PInt 2])])
      = Inr (make_verdict [(''jmespath'', PStr ''a'')] True (PList [PList [PInt 1], PInt 2]))
   \<and> PList [PInt 1] \<in> set (concat (map splice_one [PList [PList [PInt 1]], PInt 2]))"
proof -
  let ?r = "[(''jmespath'', PStr ''a'')]"
  let ?d = "PDict [(''a'', PList [PList [PList [PInt 1]], PInt 2])]"
  have b: "observe ref_lib ?r ?d = PList [PList [PList [PInt 1]], PInt 2]" by code_simp
  from flatten_one_level [OF b] b show ?thesis
    by (simp add: aggregate_def eval_single_def rule_operator_def rule_expected_def dict_get_def)
qed

section \<open>The operators exists and absent\<close>

text \<open>
  Claim C7, as amended. With operator \<^verbatim>\<open>exists\<close> a verdict is always returned; it fails
  on a null observation, passes on a non-null observation that is not a sequence, and
  on a sequence passes exactly when every element of the flattened sequence is non-null.
  With operator \<^verbatim>\<open>absent\<close> it passes on null, fails on a non-null observation that is
  not a sequence, and on a sequence passes exactly when every element is null.
\<close>

theorem exists_absent_verdict:
  "(rule_operator rule = PStr ''exists'' \<longrightarrow>
      (\<exists>v. evaluate_rule L rule doc = Inr v \<and>
           vd_passed v =
             (case observe L rule doc of
                PNone \<Rightarrow> False
              | PList items \<Rightarrow> list_all (\<lambda>x. x \<noteq> PNone) (flatten_loop [] items)
              | _ \<Rightarrow> True)))
   \<and> (rule_operator rule = PStr ''absent'' \<longrightarrow>
      (\<exists>v. evaluate_rule L rule doc = Inr v \<and>
           vd_passed v =
             (case observe L rule doc of
                PNone \<Rightarrow> True
              | PList items \<Rightarrow> list_all (\<lambda>x. x = PNone) (flatten_loop [] items)
              | _ \<Rightarrow> False)))"
proof (cases "\<exists>items. observe L rule doc = PList items")
  case True
  then obtain items where obs: "observe L rule doc = PList items" by blast
  show ?thesis
    by (simp add: evaluate_rule_list [OF obs] obs aggregate_def eval_single_def py_all_pure)
next
  case False
  then have nl: "\<And>items. observe L rule doc \<noteq> PList items" by blast
  show ?thesis using nl
    by (cases "observe L rule doc")
       (auto simp: evaluate_rule_single [OF refl nl] eval_single_def)
qed

theorem exists_absent_verdict_witness:
  "rule_operator [(''jmespath'', PStr ''storage.type''), (''operator'', PStr ''exists'')]
      = PStr ''exists''
   \<and> (\<exists>v. evaluate_rule ref_lib
          [(''jmespath'', PStr ''storage.type''), (''operator'', PStr ''exists'')]
          (PDict [(''storage'', PDict [(''type'', PStr ''file'')])]) = Inr v \<and> vd_passed v)
   \<and> rule_operator [(''jmespath'', PStr ''storage.type''), (''operator'', PStr ''absent'')]
      = PStr ''absent''
   \<and> (\<exists>v. evaluate_rule ref_lib
          [(''jmespath'', PStr ''storage.type''), (''operator'', PStr ''absent'')]
          (PDict [(''storage'', PDict [(''type'', PStr ''file'')])]) = Inr v \<and> \<not> vd_passed v)"
proof -
  let ?d = "PDict [(''storage'', PDict [(''type'', PStr ''file'')])]"
  let ?r1 = "[(''jmespath'', PStr ''storage.type''), (''operator'', PStr ''exists'')]"
  let ?r2 = "[(''jmespath'', PStr ''storage.type''), (''operator'', PStr ''absent'')]"
  have o1: "observe ref_lib ?r1 ?d = PStr ''file''" by code_simp
  have o2: "observe ref_lib ?r2 ?d = PStr ''file''" by code_simp
  have p1: "rule_operator ?r1 = PStr ''exists''" and p2: "rule_operator ?r2 = PStr ''absent''"
    by (simp_all add: rule_operator_def dict_get_def)
  from exists_absent_verdict [of ?r1 ref_lib ?d] exists_absent_verdict [of ?r2 ref_lib ?d]
  show ?thesis by (simp add: o1 o2 p1 p2)
qed

text \<open>
  Claim C7 as stated does not hold for sequence observations: the empty sequence is a
  non-null observation that passes \<^verbatim>\<open>absent\<close>, and a sequence holding a null is a
  non-null observation that fails \<^verbatim>\<open>exists\<close>.
\<close>

theorem exists_absent_on_sequences:
  "observe ref_lib
      [(''jmespath'', PStr ''listener[*].tls_cert_file''), (''operator'', PStr ''absent'')]
      (PDict [(''listener'', PList [PDict [(''type'', PStr ''tcp'')]])]) = PList []
   \<and> map_sum id vd_passed (evaluate_rule ref_lib
      [(''jmespath'', PStr ''listener[*].tls_cert_file''), (''operator'', PStr ''absent'')]
      (PDict [(''listener'', PList [PDict [(''type'', PStr ''tcp'')]])])) = Inr True
   \<and> observe ref_lib
      [(''jmespath'', PStr ''seals''), (''operator'', PStr ''exists'')]
      (PDict [(''seals'', PList [PNone])]) = PList [PNone]
   \<and> map_sum id vd_passed (evaluate_rule ref_lib
      [(''jmespath'', PStr ''seals''), (''operator'', PStr ''exists'')]
      (PDict [(''seals'', PList [PNone])])) = Inr False"
  by code_simp

section \<open>The rule runner\<close>

text \<open>
  Claim C9, as amended. Provided no evaluation raises, the runner returns exactly one
  verdict per rule, in the order of the rules, the verdict at each position being the
  result of evaluating the rule at that position against the document.
\<close>

theorem run_rules_one_verdict_per_rule:
  assumes ok: "list_all (\<lambda>r. \<not> isl (evaluate_rule L r doc)) rules"
  shows "\<exists>vs. run_rules_for_file L rules doc = Inr vs \<and> length vs = length rules
            \<and> map Inr vs = map (\<lambda>r. evaluate_rule L r doc) rules"
proof -
  let ?vs = "map (\<lambda>r. projr (evaluate_rule L r doc)) rules"
  have "map Inr ?vs = map (\<lambda>r. evaluate_rule L r doc) rules"
    using ok by (induction rules) auto
  then show ?thesis
    using run_rules_returns_iff [of L rules doc ?vs] by auto
qed

theorem run_rules_one_verdict_per_rule_witness:
  "list_all (\<lambda>r. \<not> isl (evaluate_rule ref_lib r (PDict [(''foo'', PDict [(''bar'', PInt 42)])])))
      [[(''id'', PStr ''R1''), (''jmespath'', PStr ''foo.bar''), (''operator'', PStr ''equals''),
        (''expected'', PInt 42)],
       [(''id'', PStr ''R2''), (''jmespath'', PStr ''foo.baz''), (''operator'', PStr ''exists'')]]
   \<and> run_rules_for_file ref_lib
      [[(''id'', PStr ''R1''), (''jmespath'', PStr ''foo.bar''), (''operator'', PStr ''equals''),
        (''expected'', PInt 42)],
       [(''id'', PStr ''R2''), (''jmespath'', PStr ''foo.baz''), (''operator'', PStr ''exists'')]]
      (PDict [(''foo'', PDict [(''bar'', PInt 42)])])
     = Inr [make_verdict
              [(''id'', PStr ''R1''), (''jmespath'', PStr ''foo.bar''),
               (''operator'', PStr ''equals''), (''expected'', PInt 42)] True (PInt 42),
            make_verdict
              [(''id'', PStr ''R2''), (''jmespath'', PStr ''foo.baz''),
               (''operator'', PStr ''exists'')] False PNone]"
proof -
  let ?d = "PDict [(''foo'', PDict [(''bar'', PInt 42)])]"
  let ?r1 = "[(''id'', PStr ''R1''), (''jmespath'', PStr ''foo.bar''), (''operator'', PStr ''equals''),
        (''expected'', PInt 42)]"
  let ?r2 = "[(''id'', PStr ''R2''), (''jmespath'', PStr ''foo.baz''), (''operator'', PStr ''exists'')]"
  have a1: "evaluate_rule ref_lib ?r1 ?d = Inr (make_verdict ?r1 True (PInt 42))"
    and a2: "evaluate_rule ref_lib ?r2 ?d = Inr (make_verdict ?r2 False PNone)"
    by code_simp+
  have ok: "list_all (\<lambda>r. \<not> isl (evaluate_rule ref_lib r ?d)) [?r1, ?r2]"
    by (simp add: a1 a2)
  from run_rules_one_verdict_per_rule [OF ok] obtain vs
    where r: "run_rules_for_file ref_lib [?r1, ?r2] ?d = Inr vs"
      and m: "map Inr vs = map (\<lambda>r. evaluate_rule ref_lib r ?d) [?r1, ?r2]"
    by blast
  from m have "vs = [make_verdict ?r1 True (PInt 42), make_verdict ?r2 False PNone]"
    by (simp add: a1 a2 map_eq_Cons_conv)
  with r ok show ?thesis by simp
qed

text \<open>
  Claim C9 as stated does not hold: when the evaluation of one rule raises, the runner
  raises and returns no verdict, also for the rules that evaluate.
\<close>

theorem run_rules_raises:
  "\<not> isl (evaluate_rule ref_lib
       [(''id'', PStr ''R1''), (''jmespath'', PStr ''foo.bar''), (''operator'', PStr ''equals''),
        (''expected'', PInt 42)]
       (PDict [(''foo'', PDict [(''bar'', PInt 42)])]))
   \<and> evaluate_rule ref_lib
       [(''id'', PStr ''R2''), (''jmespath'', PStr ''foo.bar''), (''operator'', PStr ''in''),
        (''expected'', PInt 5)]
       (PDict [(''foo'', PDict [(''bar'', PInt 42)])]) = Inl TypeError
   \<and> \<not> isl (evaluate_rule ref_lib
       [(''id'', PStr ''R3''), (''jmespath'', PStr ''foo''), (''operator'', PStr ''exists'')]
       (PDict [(''foo'', PDict [(''bar'', PInt 42)])]))
   \<and> run_rules_for_file ref_lib
       [[(''id'', PStr ''R1''), (''jmespath'', PStr ''foo.bar''), (''operator'', PStr ''equals''),
         (''expected'', PInt 42)],
        [(''id'', PStr ''R2''), (''jmespath'', PStr ''foo.bar''), (''operator'', PStr ''in''),
         (''expected'', PInt 5)],
        [(''id'', PStr ''R3''), (''jmespath'', PStr ''foo''), (''operator'', PStr ''exists'')]]
       (PDict [(''foo'', PDict [(''bar'', PInt 42)])]) = Inl TypeError"
  by code_simp

section \<open>The empty path expression\<close>

text \<open>
  Claim C10. A rule whose path expression is the empty string evaluates exactly as the
  rule without a path expression: a verdict is returned, its observation is null, it
  fails with operator \<^verbatim>\<open>exists\<close> and passes with operator \<^verbatim>\<open>absent\<close>.
\<close>

theorem empty_path_is_no_path:
  assumes ep: "map_of rule ''jmespath'' = Some (PStr [])"
  shows "evaluate_rule L rule doc = evaluate_rule L (without_path rule) doc
       \<and> (\<exists>v. evaluate_rule L rule doc = Inr v \<and> vd_observed v = PNone
              \<and> (rule_operator rule = PStr ''exists'' \<longrightarrow> \<not> vd_passed v)
              \<and> (rule_operator rule = PStr ''absent'' \<longrightarrow> vd_passed v))"
proof -
  let ?r' = "without_path rule"
  let ?P = "eval_single L (rule_operator rule) PNone (rule_expected rule) None"
  have o1: "observe L rule doc = PNone"
    using ep by (simp add: observe_def dict_get_def)
  have o2: "observe L ?r' doc = PNone"
    by (simp add: observe_def dict_get_def map_of_without_path_None)
  have op: "rule_operator ?r' = rule_operator rule"
    and ex: "rule_expected ?r' = rule_expected rule"
    by (simp_all add: rule_operator_def rule_expected_def dict_get_without_path)
  have mk: "\<And>p. make_verdict ?r' p PNone = make_verdict rule p PNone"
    by (simp add: make_verdict_def dict_get_without_path)
  have e1: "evaluate_rule L rule doc =
      (case ?P of Inl e \<Rightarrow> Inl e | Inr p \<Rightarrow> Inr (make_verdict rule p PNone))"
    using eval_single_None_total [OF tls_rule_empty_path [OF ep]]
    by (simp add: evaluate_rule_single [OF o1])
  have e2: "evaluate_rule L ?r' doc =
      (case ?P of Inl e \<Rightarrow> Inl e | Inr p \<Rightarrow> Inr (make_verdict rule p PNone))"
    using eval_single_None_total [OF tls_rule_without_path]
    by (simp add: evaluate_rule_single [OF o2] op ex mk cong: sum.case_cong)
  have "\<not> isl ?P" by (simp add: eval_single_def tls_rule_None)
  then obtain p where p: "?P = Inr p" by (cases ?P) auto
  have px: "rule_operator rule = PStr ''exists'' \<longrightarrow> \<not> p"
    and pa: "rule_operator rule = PStr ''absent'' \<longrightarrow> p"
    using p by (auto simp: eval_single_def)
  from e1 e2 p px pa show ?thesis by simp
qed

theorem empty_path_is_no_path_witness:
  "map_of [(''id'', PStr ''R7''), (''jmespath'', PStr []), (''operator'', PStr ''absent'')]
      ''jmespath'' = Some (PStr [])
   \<and> rule_operator [(''id'', PStr ''R7''), (''jmespath'', PStr []), (''operator'', PStr ''absent'')]
      = PStr ''absent''
   \<and> evaluate_rule ref_lib
       [(''id'', PStr ''R7''), (''jmespath'', PStr []), (''operator'', PStr ''absent'')]
       (PDict [(''ui'', PBool True)])
     = evaluate_rule ref_lib [(''id'', PStr ''R7''), (''operator'', PStr ''absent'')]
       (PDict [(''ui'', PBool True)])
   \<and> (\<exists>v. evaluate_rule ref_lib
          [(''id'', PStr ''R7''), (''jmespath'', PStr []), (''operator'', PStr ''absent'')]
          (PDict [(''ui'', PBool True)]) = Inr v \<and> vd_observed v = PNone \<and> vd_passed v)"
proof -
  let ?r = "[(''id'', PStr ''R7''), (''jmespath'', PStr []), (''operator'', PStr ''absent'')]"
  have a: "map_of ?r ''jmespath'' = Some (PStr [])" by simp
  have b: "rule_operator ?r = PStr ''absent''"
    by (simp add: rule_operator_def dict_get_def)
  have c: "without_path ?r = [(''id'', PStr ''R7''), (''operator'', PStr ''absent'')]"
    by (simp add: without_path_def)
  from empty_path_is_no_path [OF a, of ref_lib "PDict [(''ui'', PBool True)]"] a b
  show ?thesis unfolding c by metis
qed

end
